theory Spec2Isabelle
  imports Main
begin

section \<open>Values shared by the three server variants\<close>

text \<open>
  The repository holds three stand-alone WebSocket servers: \<open>server.js\<close>, the
  \<open>VoiceSession\<close> server (\<open>unnamed/part_000\<close>) and the live-session server
  (\<open>unnamed/part_001\<close>). Each is embedded below with explicit state passing. A
  handler that is an \<open>async\<close> function is cut at the \<open>await\<close> of its provider
  call: the part before it runs inside the step of the inbound message, the part
  after it runs in a later step, when the environment settles the call.
\<close>

text \<open>A field that holds \<open>undefined\<close>, \<open>null\<close> or an object of the provider SDK.\<close>

datatype ref = Undefined | Null | Object

text \<open>JavaScript exceptions, each with its \<open>message\<close>.\<close>

datatype exn = SyntaxError string | TypeError string | ReferenceError string | Error string

fun message_of :: "exn \<Rightarrow> string" where
  "message_of (SyntaxError m) = m"
| "message_of (TypeError m) = m"
| "message_of (ReferenceError m) = m"
| "message_of (Error m) = m"

text \<open>
  A statement that completes normally or throws: the exception, if any, and the
  state reached at that point (assignments made before a \<open>throw\<close> persist).
\<close>

type_synonym 's completion = "exn option \<times> 's"

definition try_catch :: "'s completion \<Rightarrow> (exn \<Rightarrow> 's \<Rightarrow> 's completion) \<Rightarrow> 's completion" where
  "try_catch r h = (case r of (None, s) \<Rightarrow> (None, s) | (Some e, s) \<Rightarrow> h e s)"

text \<open>
  The \<open>audio\<close> property of an inbound frame, by what \<open>Buffer.from(data.audio, 'base64')\<close>
  makes of it (the only use of its value, line 112 of the VoiceSession server): a
  buffer, for a string, an array or an array-like object, or a \<open>TypeError\<close> with the
  message Node words for the value, for \<open>undefined\<close>, \<open>null\<close>, a boolean, a number or
  any other object. The other two servers pass the property on without reading it.
\<close>

datatype buffer_arg = Bufferable | NotBufferable string

definition absent_audio :: buffer_arg where
  "absent_audio =
     NotBufferable ''The first argument must be of type string or an instance of Buffer, ArrayBuffer, or Array or an Array-like Object. Received undefined''"

text \<open>
  An inbound frame, by what \<open>JSON.parse\<close> makes of it: a \<open>SyntaxError\<close> (with the
  engine's message), the value \<open>null\<close> (reading \<open>data.type\<close> then throws a
  \<open>TypeError\<close>), or any other value. The handlers read four properties of the
  value. \<open>mtype\<close>, \<open>mimeType\<close> and \<open>input_text\<close> read \<open>None\<close> when the property
  is absent or is not a string (the \<open>switch\<close> compares \<open>data.type\<close> with string
  literals by \<open>===\<close>; the other two go to the provider only).
\<close>

record message =
  mtype :: "string option"
  audio :: buffer_arg
  mimeType :: "string option"
  input_text :: "string option"

datatype inbound = Unparseable string | ParsedNull | Parsed message

text \<open>
  How a provider call (\<open>sendMessage\<close>) settles: the promise resolves and
  \<open>response.text()\<close> returns the reply, the promise is rejected (with the error's
  message), or it resolves but \<open>response.text()\<close> throws (the SDK does so for a
  blocked candidate).
\<close>

datatype outcome = Reply string | Rejected string | Unreadable string

text \<open>
  Outbound frames, by their \<open>type\<close>. An \<open>error\<close> frame carries its \<open>message\<close>; an
  \<open>ai_response\<close> carries its \<open>text\<close> and, in \<open>server.js\<close>, its \<open>transcription\<close>. The
  fixed \<open>message\<close> strings of the other frames, \<open>audio: null\<close>, the session id and
  the wall-clock \<open>latency\<close> are left out.
\<close>

datatype frame =
    ConversationStarted
  | AiResponse string "string option"
  | AiFinishedSpeaking
  | NaturalInterrupt
  | Interrupted
  | ReadyForInput
  | ConversationEnded
  | ErrorFrame string
  | NaturalInterruptConfirmed
  | SessionStarted
  | ProcessingAudio
  | TextResponse string
  | TtsRequest string
  | InterruptionHandled

fun is_error :: "frame \<Rightarrow> bool" where
  "is_error (ErrorFrame m) = True"
| "is_error f = False"

definition remove_nth :: "nat \<Rightarrow> 'a list \<Rightarrow> 'a list" where
  "remove_nth k xs = take k xs @ drop (Suc k) xs"

section \<open>server.js\<close>

subsection \<open>State\<close>

text \<open>
  The object stored in \<open>activeConnections\<close> (line 57, fields added at lines 118 to
  121). \<open>isSpeaking\<close> is only ever tested for truthiness, so the absent field reads
  \<open>False\<close>. The \<open>ws\<close> field is the socket; what is passed to its \<open>send\<close> is recorded
  in \<open>sent\<close> below.
\<close>

record connection =
  isListening :: bool
  isSpeaking :: bool
  chat :: ref
  model :: ref

type_synonym connection_id = string

text \<open>
  A suspended handler: \<open>handleStartConversation\<close> at the \<open>await\<close> of line 137, or
  \<open>handleAudioData\<close> at the \<open>await\<close> of line 199 with its \<open>transcribedText\<close>.
\<close>

datatype task = Greeting connection_id | Turn connection_id string

text \<open>
  A pending \<open>setTimeout\<close> callback: lines 147 and 217, and line 269. The delay is
  not modelled: the environment fires pending timers in any order.
\<close>

datatype timer = FinishSpeaking connection_id | ReadyAgain connection_id

text \<open>
  Connection ids are drawn at random (line 56) and taken to be distinct per socket,
  so a socket, its closure and the object it creates are all named by the id.
  \<open>objects\<close> holds the connection objects: an object removed from the Map is still
  referenced by the closures of its suspended handlers and timers. The Map
  \<open>activeConnections\<close> maps an id to the object of that id (line 57 is its only
  \<open>set\<close>), so it is given by its key set. \<open>sent\<close> lists what was passed to
  \<open>ws.send\<close> of each socket, oldest first; \<open>ws.send\<close> is taken not to throw.
\<close>

record world =
  objects :: "connection_id \<Rightarrow> connection"
  activeConnections :: "connection_id set"
  sent :: "connection_id \<Rightarrow> frame list"
  awaiting :: "task list"
  timers :: "timer list"

definition initial_world :: world where
  "initial_world =
     \<lparr>objects = (\<lambda>cid. \<lparr>isListening = False, isSpeaking = False, chat = Undefined, model = Undefined\<rparr>),
      activeConnections = {}, sent = (\<lambda>cid. []), awaiting = [], timers = []\<rparr>"

definition activeConnections_get :: "world \<Rightarrow> connection_id \<Rightarrow> connection option" where
  "activeConnections_get w cid = (if cid \<in> activeConnections w then Some (objects w cid) else None)"

definition ws_send :: "connection_id \<Rightarrow> frame \<Rightarrow> world \<Rightarrow> world" where
  "ws_send cid f w = w\<lparr>sent := (sent w)(cid := sent w cid @ [f])\<rparr>"

definition assign :: "connection_id \<Rightarrow> (connection \<Rightarrow> connection) \<Rightarrow> world \<Rightarrow> world" where
  "assign cid f w = w\<lparr>objects := (objects w)(cid := f (objects w cid))\<rparr>"

subsection \<open>Handlers\<close>

definition sampleQueries :: "string list" where
  "sampleQueries =
     [''Tell me about RV400 features'',
      ''What's the price of RV400 BRZ?'',
      ''How far can I travel on a single charge?'',
      ''What's the top speed?'',
      ''How do I book a test ride?'',
      ''Tell me about the mobile app features'',
      ''What colors are available?'',
      ''How long does charging take?'',
      ''What's included in the warranty?'',
      ''Where can I service my Revolt bike?'']"

text \<open>\<open>simulateSTT\<close>: \<open>r\<close> is the draw of \<open>Math.random\<close>, scaled to an index.\<close>

definition simulateSTT :: "nat \<Rightarrow> string" where
  "simulateSTT r = sampleQueries ! (r mod length sampleQueries)"

text \<open>
  \<open>handleStartConversation\<close>, lines 105 to 137: the \<open>try\<close> block up to the \<open>await\<close>.
  With no Map entry, \<open>connection.model = model\<close> throws. The SDK's constructors
  (\<open>getGenerativeModel\<close>, \<open>startChat\<close>) are taken not to throw. The greeting prompt
  drawn at lines 130 to 136 goes to the provider only and is not recorded.
\<close>

definition handleStartConversation_try :: "connection_id \<Rightarrow> world \<Rightarrow> world completion" where
  "handleStartConversation_try cid w =
     (case activeConnections_get w cid of
        None \<Rightarrow> (Some (TypeError ''Cannot set properties of undefined (setting 'model')''), w)
      | Some c \<Rightarrow>
          (let w1 = assign cid (\<lambda>c. c\<lparr>model := Object, chat := Object,
                                          isListening := True, isSpeaking := False\<rparr>) w;
               w2 = ws_send cid ConversationStarted w1;
               w3 = assign cid (\<lambda>c. c\<lparr>isSpeaking := True\<rparr>) w2
           in (None, w3\<lparr>awaiting := awaiting w3 @ [Greeting cid]\<rparr>)))"

definition handleStartConversation_catch :: "connection_id \<Rightarrow> exn \<Rightarrow> world \<Rightarrow> world completion" where
  "handleStartConversation_catch cid e w =
     (None, ws_send cid (ErrorFrame ''Failed to start conversation'') w)"

definition handleStartConversation :: "connection_id \<Rightarrow> world \<Rightarrow> world completion" where
  "handleStartConversation cid w =
     try_catch (handleStartConversation_try cid w) (handleStartConversation_catch cid)"

text \<open>Lines 137 to 162: the rest of the \<open>try\<close> block, once the greeting call settles.\<close>

definition handleStartConversation_rest :: "connection_id \<Rightarrow> outcome \<Rightarrow> world \<Rightarrow> world completion" where
  "handleStartConversation_rest cid out w =
     (case out of
        Rejected m \<Rightarrow> (Some (Error m), w)
      | Unreadable m \<Rightarrow> (Some (Error m), w)
      | Reply t \<Rightarrow>
          (let w1 = ws_send cid (AiResponse t None) w
           in (None, w1\<lparr>timers := timers w1 @ [FinishSpeaking cid]\<rparr>)))"

definition handleStartConversation_resume :: "connection_id \<Rightarrow> outcome \<Rightarrow> world \<Rightarrow> world completion" where
  "handleStartConversation_resume cid out w =
     try_catch (handleStartConversation_rest cid out w) (handleStartConversation_catch cid)"

text \<open>
  \<open>handleAudioData\<close>, lines 166 to 199. \<open>simulateSTT\<close> resolves at once, without
  waiting for any input, so the model runs the block as one step, from the arrival
  of the message up to the \<open>await\<close> of the provider call at line 199.
\<close>

definition handleAudioData_try :: "connection_id \<Rightarrow> nat \<Rightarrow> world \<Rightarrow> world completion" where
  "handleAudioData_try cid r w =
     (case activeConnections_get w cid of
        None \<Rightarrow> (None, ws_send cid (ErrorFrame ''No active conversation'') w)
      | Some c \<Rightarrow>
          if chat c \<noteq> Object then (None, ws_send cid (ErrorFrame ''No active conversation'') w)
          else
            (let w1 = (if isSpeaking c
                       then ws_send cid NaturalInterrupt (assign cid (\<lambda>c. c\<lparr>isSpeaking := False\<rparr>) w)
                       else w)
             in (None, w1\<lparr>awaiting := awaiting w1 @ [Turn cid (simulateSTT r)]\<rparr>)))"

definition handleAudioData_catch :: "connection_id \<Rightarrow> exn \<Rightarrow> world \<Rightarrow> world completion" where
  "handleAudioData_catch cid e w = (None, ws_send cid (ErrorFrame ''Failed to process audio'') w)"

definition handleAudioData :: "connection_id \<Rightarrow> nat \<Rightarrow> world \<Rightarrow> world completion" where
  "handleAudioData cid r w = try_catch (handleAudioData_try cid r w) (handleAudioData_catch cid)"

text \<open>
  Lines 199 to 233, once the provider call settles. \<open>connection\<close> is the object
  captured at line 167. Line 205 sets \<open>isSpeaking\<close> before line 209 reads the text.
\<close>

definition handleAudioData_rest :: "connection_id \<Rightarrow> string \<Rightarrow> outcome \<Rightarrow> world \<Rightarrow> world completion" where
  "handleAudioData_rest cid q out w =
     (case out of
        Rejected m \<Rightarrow> (Some (Error m), w)
      | Unreadable m \<Rightarrow> (Some (Error m), assign cid (\<lambda>c. c\<lparr>isSpeaking := True\<rparr>) w)
      | Reply t \<Rightarrow>
          (let w1 = assign cid (\<lambda>c. c\<lparr>isSpeaking := True\<rparr>) w;
               w2 = ws_send cid (AiResponse t (Some q)) w1
           in (None, w2\<lparr>timers := timers w2 @ [FinishSpeaking cid]\<rparr>)))"

definition handleAudioData_resume :: "connection_id \<Rightarrow> string \<Rightarrow> outcome \<Rightarrow> world \<Rightarrow> world completion" where
  "handleAudioData_resume cid q out w =
     try_catch (handleAudioData_rest cid q out w) (handleAudioData_catch cid)"

text \<open>
  \<open>handleInterrupt\<close>, lines 255 to 282. No \<open>case\<close> of the message handler calls it.
\<close>

definition handleInterrupt :: "connection_id \<Rightarrow> world \<Rightarrow> world completion" where
  "handleInterrupt cid w =
     (case activeConnections_get w cid of
        None \<Rightarrow> (None, w)
      | Some c \<Rightarrow>
          (let w1 = assign cid (\<lambda>c. c\<lparr>isListening := False\<rparr>) w;
               w2 = ws_send cid Interrupted w1
           in (None, w2\<lparr>timers := timers w2 @ [ReadyAgain cid]\<rparr>)))"

text \<open>\<open>handleEndConversation\<close>, lines 284 to 302.\<close>

definition handleEndConversation :: "connection_id \<Rightarrow> world \<Rightarrow> world completion" where
  "handleEndConversation cid w =
     (let w1 = (case activeConnections_get w cid of
                  None \<Rightarrow> w
                | Some c \<Rightarrow> assign cid (\<lambda>c. c\<lparr>isListening := False, chat := Null, model := Null\<rparr>) w)
      in (None, ws_send cid ConversationEnded w1))"

text \<open>
  The message handler, lines 59 to 91. \<open>server.js\<close> declares no
  \<open>handleNaturalInterrupt\<close>: evaluating the call of line 74 throws a
  \<open>ReferenceError\<close>.
\<close>

definition on_message_try :: "connection_id \<Rightarrow> inbound \<Rightarrow> nat \<Rightarrow> world \<Rightarrow> world completion" where
  "on_message_try cid raw r w =
     (case raw of
        Unparseable m \<Rightarrow> (Some (SyntaxError m), w)
      | ParsedNull \<Rightarrow> (Some (TypeError ''Cannot read properties of null (reading 'type')''), w)
      | Parsed d \<Rightarrow>
          if mtype d = Some ''start_conversation'' then handleStartConversation cid w
          else if mtype d = Some ''audio_data'' then handleAudioData cid r w
          else if mtype d = Some ''natural_interrupt''
            then (Some (ReferenceError ''handleNaturalInterrupt is not defined''), w)
          else if mtype d = Some ''end_conversation'' then handleEndConversation cid w
          else (None, w))"

definition on_message_catch :: "connection_id \<Rightarrow> exn \<Rightarrow> world \<Rightarrow> world completion" where
  "on_message_catch cid e w = (None, ws_send cid (ErrorFrame ''Failed to process message'') w)"

definition on_message :: "connection_id \<Rightarrow> inbound \<Rightarrow> nat \<Rightarrow> world \<Rightarrow> world completion" where
  "on_message cid raw r w = try_catch (on_message_try cid raw r w) (on_message_catch cid)"

text \<open>
  The message handler resumed: the suspended \<open>await\<close> of line 66 or 70 sits inside
  the same \<open>try\<close> block.
\<close>

definition on_settle :: "task \<Rightarrow> outcome \<Rightarrow> world \<Rightarrow> world completion" where
  "on_settle t out w =
     (case t of
        Greeting cid \<Rightarrow> try_catch (handleStartConversation_resume cid out w) (on_message_catch cid)
      | Turn cid q \<Rightarrow> try_catch (handleAudioData_resume cid q out w) (on_message_catch cid))"

text \<open>The timer callbacks: lines 147 to 154 and 217 to 224, and lines 269 to 277.\<close>

definition on_timer :: "timer \<Rightarrow> world \<Rightarrow> world" where
  "on_timer t w =
     (case t of
        FinishSpeaking cid \<Rightarrow>
          if isSpeaking (objects w cid)
          then ws_send cid AiFinishedSpeaking (assign cid (\<lambda>c. c\<lparr>isSpeaking := False\<rparr>) w)
          else w
      | ReadyAgain cid \<Rightarrow>
          if cid \<in> activeConnections w
          then ws_send cid ReadyForInput (assign cid (\<lambda>c. c\<lparr>isListening := True\<rparr>) w)
          else w)"

subsection \<open>Events\<close>

text \<open>
  What the event loop delivers: a new socket with the id drawn for it, a message on
  a socket (with the draw \<open>simulateSTT\<close> will make), \<open>close\<close> and \<open>error\<close> of a
  socket, the settling of the \<open>k\<close>-th suspended provider call, and the firing of
  the \<open>k\<close>-th pending timer.
\<close>

datatype event =
    Connection connection_id
  | Message connection_id inbound nat
  | Close connection_id
  | SocketError connection_id
  | Settle nat outcome
  | Fire nat

definition step :: "world \<Rightarrow> event \<Rightarrow> world" where
  "step w ev =
     (case ev of
        Connection cid \<Rightarrow>
          w\<lparr>objects := (objects w)(cid := \<lparr>isListening = False, isSpeaking = False,
                                             chat = Undefined, model = Undefined\<rparr>),
            activeConnections := insert cid (activeConnections w)\<rparr>
      | Message cid raw r \<Rightarrow> snd (on_message cid raw r w)
      | Close cid \<Rightarrow> w\<lparr>activeConnections := activeConnections w - {cid}\<rparr>
      | SocketError cid \<Rightarrow> w\<lparr>activeConnections := activeConnections w - {cid}\<rparr>
      | Settle k out \<Rightarrow>
          if k < length (awaiting w)
          then snd (on_settle (awaiting w ! k) out (w\<lparr>awaiting := remove_nth k (awaiting w)\<rparr>))
          else w
      | Fire k \<Rightarrow>
          if k < length (timers w)
          then on_timer (timers w ! k) (w\<lparr>timers := remove_nth k (timers w)\<rparr>)
          else w)"

definition run :: "world \<Rightarrow> event list \<Rightarrow> world" where
  "run w evs = foldl step w evs"

text \<open>
  The session states the code distinguishes, read off the connection object: \<open>Idle\<close>
  before any \<open>start_conversation\<close> (\<open>chat\<close> was never assigned), \<open>Ended\<close> once
  \<open>handleEndConversation\<close> has set \<open>chat\<close> to \<open>null\<close>, and otherwise \<open>Speaking\<close> or
  \<open>Listening\<close> by the \<open>isSpeaking\<close> flag. The flag is all the code keeps: the spec's
  \<open>Speaking\<close> also covers a user turn whose provider call is in flight, which the
  connection object does not record (such calls are the \<open>Turn\<close> entries of
  \<open>awaiting\<close>).
\<close>

datatype phase = Idle | Listening | Speaking | Ended

definition phase_of :: "connection \<Rightarrow> phase" where
  "phase_of c =
     (case chat c of
        Undefined \<Rightarrow> Idle
      | Null \<Rightarrow> Ended
      | Object \<Rightarrow> if isSpeaking c then Speaking else Listening)"

text \<open>An inbound frame with the given \<open>type\<close> and no other property.\<close>

definition wire :: "string \<Rightarrow> inbound" where
  "wire ty = Parsed \<lparr>mtype = Some ty, audio = absent_audio, mimeType = None, input_text = None\<rparr>"

text \<open>Sample executions of one client, used to evaluate the model.\<close>

definition sample_speaking :: world where
  "sample_speaking =
     run initial_world
       [Connection ''c1'', Message ''c1'' (wire ''start_conversation'') 0, Settle 0 (Reply ''hello'')]"

definition sample_listening :: world where
  "sample_listening = step sample_speaking (Fire 0)"

text \<open>The frames a step passed to the socket: \<open>after\<close> without its prefix \<open>before\<close>.\<close>

definition emitted :: "frame list \<Rightarrow> frame list \<Rightarrow> frame list" where
  "emitted before after = drop (length before) after"

text \<open>
  Whether the Map has an entry for \<open>cid\<close> after the events, read off the transport
  events alone: \<open>connection\<close> adds it, \<open>close\<close> and \<open>error\<close> remove it, and no message
  (an \<open>end_conversation\<close> included), settled call or timer touches it.
\<close>

fun registered_after :: "connection_id \<Rightarrow> bool \<Rightarrow> event list \<Rightarrow> bool" where
  "registered_after cid b [] = b"
| "registered_after cid b (Connection c # evs) = registered_after cid (b \<or> c = cid) evs"
| "registered_after cid b (Close c # evs) = registered_after cid (b \<and> c \<noteq> cid) evs"
| "registered_after cid b (SocketError c # evs) = registered_after cid (b \<and> c \<noteq> cid) evs"
| "registered_after cid b (Message c raw r # evs) = registered_after cid b evs"
| "registered_after cid b (Settle k out # evs) = registered_after cid b evs"
| "registered_after cid b (Fire k # evs) = registered_after cid b evs"

text \<open>
  Events that leave a \<open>Listening\<close> session of connection \<open>cid\<close> registered and
  \<open>Listening\<close>: every event but the resolving of a provider call of one of its user
  turns (line 205 then sets \<open>isSpeaking\<close>, whether or not the reply's text can be
  read), a \<open>start_conversation\<close> or \<open>end_conversation\<close> message on the connection,
  and its own \<open>connection\<close>, \<open>close\<close> and \<open>error\<close> events. \<open>undisturbed_run\<close> asks this
  of each event of a list, in the world the event meets.
\<close>

fun is_rejected :: "outcome \<Rightarrow> bool" where
  "is_rejected (Rejected m) = True"
| "is_rejected out = False"

definition undisturbed :: "connection_id \<Rightarrow> world \<Rightarrow> event \<Rightarrow> bool" where
  "undisturbed cid w ev =
     (case ev of
        Connection c \<Rightarrow> c \<noteq> cid
      | Message c raw r \<Rightarrow>
          c \<noteq> cid \<or>
          (case raw of
             Parsed d \<Rightarrow> mtype d \<noteq> Some ''start_conversation'' \<and> mtype d \<noteq> Some ''end_conversation''
           | Unparseable m \<Rightarrow> True
           | ParsedNull \<Rightarrow> True)
      | Close c \<Rightarrow> c \<noteq> cid
      | SocketError c \<Rightarrow> c \<noteq> cid
      | Settle k out \<Rightarrow>
          k < length (awaiting w) \<longrightarrow>
          (case awaiting w ! k of
             Greeting c \<Rightarrow> True
           | Turn c q \<Rightarrow> c \<noteq> cid \<or> is_rejected out)
      | Fire k \<Rightarrow> True)"

fun undisturbed_run :: "connection_id \<Rightarrow> world \<Rightarrow> event list \<Rightarrow> bool" where
  "undisturbed_run cid w [] = True"
| "undisturbed_run cid w (ev # evs) = (undisturbed cid w ev \<and> undisturbed_run cid (step w ev) evs)"

section \<open>The VoiceSession server (unnamed/part_000)\<close>

text \<open>
  The fields of class \<open>VoiceSession\<close> (lines 36 to 41). \<open>history\<close> keeps the
  \<open>response\<close> of each entry pushed at line 132.
\<close>

record voice_session =
  vs_chat :: ref
  vs_isActive :: bool
  vs_history :: "string list"

text \<open>
  What one run of the \<open>connection\<close> callback (lines 157 to 207) owns: the session
  object its closures capture, whether the Map \<open>sessions\<close> holds the socket, the
  frames passed to \<open>ws.send\<close>, and the number of \<open>processAudio\<close> calls suspended at
  line 115. The handlers of a socket touch nothing of another socket.
\<close>

record vs_socket =
  session :: voice_session
  in_sessions :: bool
  vs_sent :: "frame list"
  vs_awaiting :: nat

definition vs_connected :: vs_socket where
  "vs_connected =
     \<lparr>session = \<lparr>vs_chat = Null, vs_isActive = False, vs_history = []\<rparr>,
      in_sessions = True, vs_sent = [], vs_awaiting = 0\<rparr>"

definition vs_send :: "frame \<Rightarrow> vs_socket \<Rightarrow> vs_socket" where
  "vs_send f s = s\<lparr>vs_sent := vs_sent s @ [f]\<rparr>"

text \<open>Method \<open>startConversation\<close>, lines 43 to 100; nothing in its \<open>try\<close> block throws.\<close>

definition startConversation :: "vs_socket \<Rightarrow> vs_socket completion" where
  "startConversation s =
     try_catch
       (None, vs_send ConversationStarted
                (s\<lparr>session := (session s)\<lparr>vs_chat := Object, vs_isActive := True\<rparr>\<rparr>))
       (\<lambda>e s'. (None, vs_send (ErrorFrame (''Failed to start conversation: '' @ message_of e)) s'))"

definition vs_handleStartConversation :: "vs_socket \<Rightarrow> vs_socket completion" where
  "vs_handleStartConversation s =
     try_catch (startConversation s)
       (\<lambda>e s'. (None, vs_send (ErrorFrame ''Failed to start conversation'') s'))"

text \<open>
  Method \<open>processAudio\<close>, lines 102 to 115: the guard, then the \<open>try\<close> block up to the
  \<open>await\<close>. The \<open>TypeError\<close> of \<open>Buffer.from\<close> is caught at line 143 and rethrown.
\<close>

definition processAudio_begin :: "buffer_arg \<Rightarrow> vs_socket \<Rightarrow> vs_socket completion" where
  "processAudio_begin audioData s =
     (if \<not> vs_isActive (session s) \<or> vs_chat (session s) \<noteq> Object
      then (Some (Error ''Conversation not active''), s)
      else
        try_catch
          (case audioData of
             NotBufferable m \<Rightarrow> (Some (TypeError m), s)
           | Bufferable \<Rightarrow> (None, s\<lparr>vs_awaiting := Suc (vs_awaiting s)\<rparr>))
          (\<lambda>e s'. (Some e, s')))"

text \<open>
  Lines 115 to 146, once the provider call settles: the reply text returned, or the
  exception rethrown.
\<close>

definition processAudio_rest :: "outcome \<Rightarrow> vs_socket \<Rightarrow> (exn + string) \<times> vs_socket" where
  "processAudio_rest out s =
     (case out of
        Rejected m \<Rightarrow> (Inl (Error m), s)
      | Unreadable m \<Rightarrow> (Inl (Error m), s)
      | Reply t \<Rightarrow>
          (Inr t, s\<lparr>session := (session s)\<lparr>vs_history := vs_history (session s) @ [t]\<rparr>\<rparr>))"

definition vs_handleAudioData_catch :: "exn \<Rightarrow> vs_socket \<Rightarrow> vs_socket completion" where
  "vs_handleAudioData_catch e s =
     (None, vs_send (ErrorFrame (''Failed to process audio: '' @ message_of e)) s)"

text \<open>\<open>handleAudioData\<close>, lines 222 to 241, up to the suspension and after it.\<close>

definition vs_handleAudioData :: "message \<Rightarrow> vs_socket \<Rightarrow> vs_socket completion" where
  "vs_handleAudioData d s = try_catch (processAudio_begin (audio d) s) vs_handleAudioData_catch"

definition vs_handleAudioData_resume :: "outcome \<Rightarrow> vs_socket \<Rightarrow> vs_socket completion" where
  "vs_handleAudioData_resume out s =
     try_catch
       (case processAudio_rest out s of
          (Inl e, s') \<Rightarrow> (Some e, s')
        | (Inr t, s') \<Rightarrow> (None, vs_send (AiResponse t None) s'))
       vs_handleAudioData_catch"

definition handleNaturalInterrupt :: "vs_socket \<Rightarrow> vs_socket completion" where
  "handleNaturalInterrupt s = (None, vs_send NaturalInterruptConfirmed s)"

definition endConversation :: "vs_socket \<Rightarrow> vs_socket" where
  "endConversation s = s\<lparr>session := (session s)\<lparr>vs_isActive := False, vs_chat := Null\<rparr>\<rparr>"

definition vs_handleEndConversation :: "vs_socket \<Rightarrow> vs_socket completion" where
  "vs_handleEndConversation s = (None, vs_send ConversationEnded (endConversation s))"

text \<open>The message handler, lines 163 to 194.\<close>

definition vs_on_message_try :: "inbound \<Rightarrow> vs_socket \<Rightarrow> vs_socket completion" where
  "vs_on_message_try raw s =
     (case raw of
        Unparseable m \<Rightarrow> (Some (SyntaxError m), s)
      | ParsedNull \<Rightarrow> (Some (TypeError ''Cannot read properties of null (reading 'type')''), s)
      | Parsed d \<Rightarrow>
          if mtype d = Some ''start_conversation'' then vs_handleStartConversation s
          else if mtype d = Some ''audio_data'' then vs_handleAudioData d s
          else if mtype d = Some ''natural_interrupt'' then handleNaturalInterrupt s
          else if mtype d = Some ''end_conversation'' then vs_handleEndConversation s
          else (None, s))"

definition vs_on_message_catch :: "exn \<Rightarrow> vs_socket \<Rightarrow> vs_socket completion" where
  "vs_on_message_catch e s = (None, vs_send (ErrorFrame (''Server error: '' @ message_of e)) s)"

definition vs_on_message :: "inbound \<Rightarrow> vs_socket \<Rightarrow> vs_socket completion" where
  "vs_on_message raw s = try_catch (vs_on_message_try raw s) vs_on_message_catch"

definition vs_on_settle :: "outcome \<Rightarrow> vs_socket \<Rightarrow> vs_socket completion" where
  "vs_on_settle out s = try_catch (vs_handleAudioData_resume out s) vs_on_message_catch"

datatype vs_event = VsMessage inbound | VsClose | VsError | VsSettle outcome

definition vs_step :: "vs_socket \<Rightarrow> vs_event \<Rightarrow> vs_socket" where
  "vs_step s ev =
     (case ev of
        VsMessage raw \<Rightarrow> snd (vs_on_message raw s)
      | VsClose \<Rightarrow> if in_sessions s then (endConversation s)\<lparr>in_sessions := False\<rparr> else s
      | VsError \<Rightarrow> s
      | VsSettle out \<Rightarrow>
          if 0 < vs_awaiting s
          then snd (vs_on_settle out (s\<lparr>vs_awaiting := vs_awaiting s - 1\<rparr>))
          else s)"

section \<open>The live-session server (unnamed/part_001)\<close>

text \<open>
  The variables of one run of the \<open>connection\<close> callback (lines 43 to 231):
  \<open>liveSession\<close> and \<open>isSessionActive\<close>, the frames passed to \<open>ws.send\<close>, and the number
  of \<open>handleTextInput\<close> calls suspended at line 172.
\<close>

record live_socket =
  liveSession :: ref
  isSessionActive :: bool
  live_sent :: "frame list"
  live_awaiting :: nat

definition live_connected :: live_socket where
  "live_connected = \<lparr>liveSession = Null, isSessionActive = False, live_sent = [], live_awaiting = 0\<rparr>"

definition live_send :: "frame \<Rightarrow> live_socket \<Rightarrow> live_socket" where
  "live_send f s = s\<lparr>live_sent := live_sent s @ [f]\<rparr>"

text \<open>\<open>startLiveSession\<close>, lines 93 to 140; nothing in its \<open>try\<close> block throws.\<close>

definition startLiveSession :: "live_socket \<Rightarrow> live_socket completion" where
  "startLiveSession s =
     try_catch
       (None, live_send SessionStarted (s\<lparr>liveSession := Object, isSessionActive := True\<rparr>))
       (\<lambda>e s'. (None, live_send (ErrorFrame (''Failed to start live session: '' @ message_of e)) s'))"

text \<open>\<open>handleAudioData\<close>, lines 142 to 166.\<close>

definition live_handleAudioData :: "live_socket \<Rightarrow> live_socket completion" where
  "live_handleAudioData s =
     try_catch (None, live_send ProcessingAudio s)
       (\<lambda>e s'. (None, live_send (ErrorFrame (''Failed to process audio: '' @ message_of e)) s'))"

definition handleTextInput_catch :: "exn \<Rightarrow> live_socket \<Rightarrow> live_socket completion" where
  "handleTextInput_catch e s =
     (None, live_send (ErrorFrame (''Failed to process input: '' @ message_of e)) s)"

text \<open>\<open>handleTextInput\<close>, lines 168 to 195, up to the \<open>await\<close> of line 172 and after it.\<close>

definition handleTextInput :: "live_socket \<Rightarrow> live_socket completion" where
  "handleTextInput s =
     try_catch (None, s\<lparr>live_awaiting := Suc (live_awaiting s)\<rparr>) handleTextInput_catch"

definition handleTextInput_resume :: "outcome \<Rightarrow> live_socket \<Rightarrow> live_socket completion" where
  "handleTextInput_resume out s =
     try_catch
       (case out of
          Rejected m \<Rightarrow> (Some (Error m), s)
        | Unreadable m \<Rightarrow> (Some (Error m), s)
        | Reply t \<Rightarrow> (None, live_send (TtsRequest t) (live_send (TextResponse t) s)))
       handleTextInput_catch"

definition handleInterruption :: "live_socket \<Rightarrow> live_socket completion" where
  "handleInterruption s = (None, live_send InterruptionHandled s)"

definition endLiveSession :: "live_socket \<Rightarrow> live_socket completion" where
  "endLiveSession s = (None, s\<lparr>isSessionActive := False\<rparr>)"

text \<open>
  The message handler, lines 49 to 91: every \<open>case\<close> but \<open>start_session\<close> is guarded,
  and the \<open>switch\<close> has no \<open>default\<close>.
\<close>

definition live_on_message_try :: "inbound \<Rightarrow> live_socket \<Rightarrow> live_socket completion" where
  "live_on_message_try raw s =
     (case raw of
        Unparseable m \<Rightarrow> (Some (SyntaxError m), s)
      | ParsedNull \<Rightarrow> (Some (TypeError ''Cannot read properties of null (reading 'type')''), s)
      | Parsed d \<Rightarrow>
          if mtype d = Some ''start_session'' then startLiveSession s
          else if mtype d = Some ''audio_data''
            then (if liveSession s = Object \<and> isSessionActive s then live_handleAudioData s else (None, s))
          else if mtype d = Some ''text_input''
            then (if liveSession s = Object \<and> isSessionActive s then handleTextInput s else (None, s))
          else if mtype d = Some ''end_session''
            then (if liveSession s = Object
                  then (case endLiveSession s of
                          (None, s') \<Rightarrow> (None, s'\<lparr>liveSession := Null, isSessionActive := False\<rparr>)
                        | (Some e, s') \<Rightarrow> (Some e, s'))
                  else (None, s))
          else if mtype d = Some ''interrupt''
            then (if liveSession s = Object \<and> isSessionActive s then handleInterruption s else (None, s))
          else (None, s))"

definition live_on_message_catch :: "exn \<Rightarrow> live_socket \<Rightarrow> live_socket completion" where
  "live_on_message_catch e s = (None, live_send (ErrorFrame (message_of e)) s)"

definition live_on_message :: "inbound \<Rightarrow> live_socket \<Rightarrow> live_socket completion" where
  "live_on_message raw s = try_catch (live_on_message_try raw s) live_on_message_catch"

definition live_on_settle :: "outcome \<Rightarrow> live_socket \<Rightarrow> live_socket completion" where
  "live_on_settle out s = try_catch (handleTextInput_resume out s) live_on_message_catch"

datatype live_event = LiveMessage inbound | LiveClose | LiveError | LiveSettle outcome

definition live_step :: "live_socket \<Rightarrow> live_event \<Rightarrow> live_socket" where
  "live_step s ev =
     (case ev of
        LiveMessage raw \<Rightarrow> snd (live_on_message raw s)
      | LiveClose \<Rightarrow> if liveSession s = Object then snd (endLiveSession s) else s
      | LiveError \<Rightarrow> s
      | LiveSettle out \<Rightarrow>
          if 0 < live_awaiting s
          then snd (live_on_settle out (s\<lparr>live_awaiting := live_awaiting s - 1\<rparr>))
          else s)"

section \<open>Lemmas shared by the claims\<close>

lemmas handler_defs =
  on_message_def on_message_try_def on_message_catch_def try_catch_def
  handleStartConversation_def handleStartConversation_try_def handleStartConversation_catch_def
  handleStartConversation_resume_def handleStartConversation_rest_def
  handleAudioData_def handleAudioData_try_def handleAudioData_catch_def
  handleAudioData_resume_def handleAudioData_rest_def
  handleEndConversation_def on_settle_def on_timer_def
  activeConnections_get_def ws_send_def assign_def

lemma on_message_completes: "fst (on_message cid raw r w) = None"
  by (simp add: handler_defs Let_def split: inbound.splits option.splits)

lemma on_settle_completes: "fst (on_settle t out w) = None"
  by (simp add: handler_defs Let_def split: task.splits outcome.splits)

lemma activeConnections_on_message:
  "activeConnections (snd (on_message cid raw r w)) = activeConnections w"
  by (simp add: handler_defs Let_def split: inbound.splits option.splits)

lemma activeConnections_on_settle:
  "activeConnections (snd (on_settle t out w)) = activeConnections w"
  by (simp add: handler_defs Let_def split: task.splits outcome.splits)

lemma activeConnections_on_timer:
  "activeConnections (on_timer t w) = activeConnections w"
  by (simp add: handler_defs Let_def split: timer.splits)

lemma sent_on_message:
  "\<exists>fs. sent (snd (on_message c raw r w)) cid = sent w cid @ fs"
  by (simp add: handler_defs Let_def split: inbound.splits option.splits)

lemma sent_on_settle:
  "\<exists>fs. sent (snd (on_settle t out w)) cid = sent w cid @ fs"
  by (simp add: handler_defs Let_def split: task.splits outcome.splits)

lemma sent_on_timer:
  "\<exists>fs. sent (on_timer t w) cid = sent w cid @ fs"
  by (simp add: handler_defs Let_def split: timer.splits)

lemma sent_step: "\<exists>fs. sent (step w ev) cid = sent w cid @ fs"
proof (cases ev)
  case (Message c raw r)
  then show ?thesis using sent_on_message [of c raw r w cid] by (simp add: step_def)
next
  case (Settle k out)
  then show ?thesis
    using sent_on_settle [of "awaiting w ! k" out "w\<lparr>awaiting := remove_nth k (awaiting w)\<rparr>" cid]
    by (simp add: step_def)
next
  case (Fire k)
  then show ?thesis
    using sent_on_timer [of "timers w ! k" "w\<lparr>timers := remove_nth k (timers w)\<rparr>" cid]
    by (simp add: step_def)
qed (simp_all add: step_def)

lemma sent_run: "\<exists>fs. sent (run w evs) cid = sent w cid @ fs"
proof (induction evs arbitrary: w)
  case Nil
  show ?case by (simp add: run_def)
next
  case (Cons ev evs)
  obtain fs where a: "sent (step w ev) cid = sent w cid @ fs" using sent_step by blast
  obtain gs where b: "sent (run (step w ev) evs) cid = sent (step w ev) cid @ gs"
    using Cons.IH by blast
  have "run w (ev # evs) = run (step w ev) evs" by (simp add: run_def)
  with a b show ?case by simp
qed

lemmas sample_defs = sample_listening_def sample_speaking_def run_def step_def initial_world_def
  wire_def remove_nth_def simulateSTT_def sampleQueries_def phase_of_def

lemma sample_speaking_value:
  "sample_speaking =
     \<lparr>objects = (\<lambda>cid. \<lparr>isListening = False, isSpeaking = False, chat = Undefined, model = Undefined\<rparr>)
         (''c1'' := \<lparr>isListening = True, isSpeaking = True, chat = Object, model = Object\<rparr>),
      activeConnections = {''c1''},
      sent = (\<lambda>cid. [])(''c1'' := [ConversationStarted, AiResponse ''hello'' None]),
      awaiting = [], timers = [FinishSpeaking ''c1'']\<rparr>"
  by (simp add: sample_defs handler_defs Let_def)

lemma sample_listening_value:
  "sample_listening =
     \<lparr>objects = (\<lambda>cid. \<lparr>isListening = False, isSpeaking = False, chat = Undefined, model = Undefined\<rparr>)
         (''c1'' := \<lparr>isListening = True, isSpeaking = False, chat = Object, model = Object\<rparr>),
      activeConnections = {''c1''},
      sent = (\<lambda>cid. [])(''c1'' := [ConversationStarted, AiResponse ''hello'' None, AiFinishedSpeaking]),
      awaiting = [], timers = []\<rparr>"
  by (simp add: sample_listening_def sample_speaking_value step_def remove_nth_def handler_defs)

lemmas vs_defs =
  vs_step_def vs_on_message_def vs_on_message_try_def vs_on_message_catch_def vs_on_settle_def
  vs_handleStartConversation_def startConversation_def processAudio_begin_def processAudio_rest_def
  vs_handleAudioData_def vs_handleAudioData_catch_def vs_handleAudioData_resume_def
  handleNaturalInterrupt_def endConversation_def vs_handleEndConversation_def vs_send_def
  try_catch_def

lemmas live_defs =
  live_step_def live_on_message_def live_on_message_try_def live_on_message_catch_def
  live_on_settle_def startLiveSession_def live_handleAudioData_def handleTextInput_def
  handleTextInput_catch_def handleTextInput_resume_def handleInterruption_def endLiveSession_def
  live_send_def try_catch_def

lemma emitted_append [simp]: "emitted xs (xs @ ys) = ys"
  by (simp add: emitted_def)

lemma emitted_self [simp]: "emitted xs xs = []"
  by (simp add: emitted_def)

lemma on_message_errors:
  "length (filter is_error (emitted (sent w c) (sent (snd (on_message cid raw r w)) c))) \<le> 1"
  by (simp add: handler_defs Let_def split: inbound.splits option.splits)

lemma on_message_suspended_no_error:
  "awaiting (snd (on_message cid raw r w)) \<noteq> awaiting w
   \<Longrightarrow> filter is_error (emitted (sent w c) (sent (snd (on_message cid raw r w)) c)) = []"
  by (auto simp: handler_defs Let_def split: inbound.splits option.splits if_splits)

lemma on_settle_errors:
  "length (filter is_error (emitted (sent w c) (sent (snd (on_settle t out w)) c))) \<le> 1"
  by (simp add: handler_defs Let_def split: task.splits outcome.splits)

lemma on_settle_awaiting: "awaiting (snd (on_settle t out w)) = awaiting w"
  by (simp add: handler_defs Let_def split: task.splits outcome.splits)

lemma vs_on_message_completes: "fst (vs_on_message raw s) = None"
  by (simp add: vs_defs split: inbound.splits buffer_arg.splits)

lemma vs_on_message_errors:
  "length (filter is_error (emitted (vs_sent s) (vs_sent (snd (vs_on_message raw s))))) \<le> 1"
  by (simp add: vs_defs split: inbound.splits buffer_arg.splits)

lemma vs_on_message_suspended_no_error:
  "vs_awaiting (snd (vs_on_message raw s)) \<noteq> vs_awaiting s
   \<Longrightarrow> filter is_error (emitted (vs_sent s) (vs_sent (snd (vs_on_message raw s)))) = []"
  by (auto simp: vs_defs split: inbound.splits buffer_arg.splits if_splits)

lemma vs_on_settle_completes: "fst (vs_on_settle out s) = None"
  by (simp add: vs_defs split: outcome.splits)

lemma vs_on_settle_errors:
  "length (filter is_error (emitted (vs_sent s) (vs_sent (snd (vs_on_settle out s))))) \<le> 1
   \<and> vs_awaiting (snd (vs_on_settle out s)) = vs_awaiting s"
  by (simp add: vs_defs split: outcome.splits)

lemma live_on_message_completes: "fst (live_on_message raw s) = None"
  by (simp add: live_defs split: inbound.splits option.splits)

lemma live_on_message_errors:
  "length (filter is_error (emitted (live_sent s) (live_sent (snd (live_on_message raw s))))) \<le> 1"
  by (simp add: live_defs split: inbound.splits option.splits)

lemma live_on_message_suspended_no_error:
  "live_awaiting (snd (live_on_message raw s)) \<noteq> live_awaiting s
   \<Longrightarrow> filter is_error (emitted (live_sent s) (live_sent (snd (live_on_message raw s)))) = []"
  by (auto simp: live_defs split: inbound.splits option.splits if_splits)

lemma live_on_settle_completes: "fst (live_on_settle out s) = None"
  by (simp add: live_defs split: outcome.splits)

lemma live_on_settle_errors:
  "length (filter is_error (emitted (live_sent s) (live_sent (snd (live_on_settle out s))))) \<le> 1
   \<and> live_awaiting (snd (live_on_settle out s)) = live_awaiting s"
  by (simp add: live_defs split: outcome.splits)

lemma boundary_catch:
  "fst (on_message_try cid raw r w) = Some e
   \<Longrightarrow> on_message cid raw r w
       = (None, ws_send cid (ErrorFrame ''Failed to process message'') (snd (on_message_try cid raw r w)))"
  by (cases "on_message_try cid raw r w") (simp add: on_message_def try_catch_def on_message_catch_def)

lemma vs_boundary_catch:
  "fst (vs_on_message_try raw s) = Some e
   \<Longrightarrow> vs_on_message raw s
       = (None, vs_send (ErrorFrame (''Server error: '' @ message_of e)) (snd (vs_on_message_try raw s)))"
  by (cases "vs_on_message_try raw s") (simp add: vs_on_message_def try_catch_def vs_on_message_catch_def)

lemma live_boundary_catch:
  "fst (live_on_message_try raw s) = Some e
   \<Longrightarrow> live_on_message raw s
       = (None, live_send (ErrorFrame (message_of e)) (snd (live_on_message_try raw s)))"
  by (cases "live_on_message_try raw s")
     (simp add: live_on_message_def try_catch_def live_on_message_catch_def)

lemma listening_iff:
  "phase_of c = Listening \<longleftrightarrow> chat c = Object \<and> \<not> isSpeaking c"
  by (simp add: phase_of_def split: ref.splits)

lemma listening_kept_step:
  assumes "cid \<in> activeConnections w"
    and "phase_of (objects w cid) = Listening"
    and "undisturbed cid w ev"
  shows "cid \<in> activeConnections (step w ev) \<and> phase_of (objects (step w ev) cid) = Listening"
proof -
  from assms(2) have li: "chat (objects w cid) = Object" "\<not> isSpeaking (objects w cid)"
    by (simp_all add: listening_iff)
  show ?thesis
  proof (cases ev)
    case (Connection c)
    with assms li show ?thesis by (simp add: undisturbed_def step_def listening_iff)
  next
    case (Message c raw r)
    with assms li show ?thesis
      by (auto simp: undisturbed_def step_def listening_iff handler_defs Let_def
               split: inbound.splits)
  next
    case (Close c)
    with assms li show ?thesis by (simp add: undisturbed_def step_def listening_iff)
  next
    case (SocketError c)
    with assms li show ?thesis by (simp add: undisturbed_def step_def listening_iff)
  next
    case (Settle k out)
    with assms li show ?thesis
      by (cases out)
         (auto simp: undisturbed_def step_def listening_iff handler_defs Let_def
               split: task.splits)
  next
    case (Fire k)
    with assms li show ?thesis
      by (auto simp: step_def listening_iff handler_defs split: timer.splits)
  qed
qed

lemma listening_kept_run:
  "cid \<in> activeConnections w \<Longrightarrow> phase_of (objects w cid) = Listening
   \<Longrightarrow> undisturbed_run cid w evs
   \<Longrightarrow> cid \<in> activeConnections (run w evs) \<and> phase_of (objects (run w evs) cid) = Listening"
proof (induction evs arbitrary: w)
  case Nil
  then show ?case by (simp add: run_def)
next
  case (Cons ev evs)
  from Cons.prems have u: "undisturbed cid w ev" "undisturbed_run cid (step w ev) evs" by simp_all
  from listening_kept_step [OF Cons.prems(1,2) u(1)]
  have k: "cid \<in> activeConnections (step w ev)" "phase_of (objects (step w ev) cid) = Listening"
    by simp_all
  have "run w (ev # evs) = run (step w ev) evs" by (simp add: run_def)
  with Cons.IH [OF k u(2)] show ?case by simp
qed

lemma listening_user_turn:
  assumes "cid \<in> activeConnections w"
    and "phase_of (objects w cid) = Listening"
    and "mtype d = Some ''audio_data''"
  shows "step w (Message cid (Parsed d) r) = w\<lparr>awaiting := awaiting w @ [Turn cid (simulateSTT r)]\<rparr>"
  using assms by (simp add: listening_iff step_def handler_defs Let_def)

section \<open>The claims\<close>

subsection \<open>C1: when the session starts speaking\<close>

text \<open>
  Claim C1, as amended. In \<open>server.js\<close> a user turn accepted in the \<open>Listening\<close>
  state does not make the session \<open>Speaking\<close> at dispatch: the step of its arrival
  sends nothing, only suspends the provider call, and leaves the session
  \<open>Listening\<close>. The session then stays \<open>Listening\<close> through every undisturbed run of
  events, that is until a provider call of one of its user turns resolves or a
  \<open>start_conversation\<close>, an \<open>end_conversation\<close>, or a \<open>connection\<close>, \<open>close\<close> or \<open>error\<close>
  event of that connection is handled. A second user turn that arrives after such a
  run is evaluated against \<open>Listening\<close>: it sends nothing (no interruption frame) and
  suspends a second provider call. When the reply to the first call is the next
  event after the dispatch, the session becomes \<open>Speaking\<close>.
\<close>

theorem dispatch_leaves_listening:
  assumes "cid \<in> activeConnections w"
    and "phase_of (objects w cid) = Listening"
    and "mtype d = Some ''audio_data''"
  shows "phase_of (objects (step w (Message cid (Parsed d) r)) cid) = Listening
       \<and> sent (step w (Message cid (Parsed d) r)) = sent w
       \<and> awaiting (step w (Message cid (Parsed d) r)) = awaiting w @ [Turn cid (simulateSTT r)]
       \<and> phase_of (objects (step (step w (Message cid (Parsed d) r))
                                  (Settle (length (awaiting w)) (Reply t))) cid) = Speaking
       \<and> (\<forall>evs. undisturbed_run cid (step w (Message cid (Parsed d) r)) evs \<longrightarrow>
             phase_of (objects (run (step w (Message cid (Parsed d) r)) evs) cid) = Listening
           \<and> sent (step (run (step w (Message cid (Parsed d) r)) evs) (Message cid (Parsed d) r'))
               = sent (run (step w (Message cid (Parsed d) r)) evs)
           \<and> awaiting (step (run (step w (Message cid (Parsed d) r)) evs) (Message cid (Parsed d) r'))
               = awaiting (run (step w (Message cid (Parsed d) r)) evs) @ [Turn cid (simulateSTT r')])"
proof -
  let ?w1 = "step w (Message cid (Parsed d) r)"
  have eq: "?w1 = w\<lparr>awaiting := awaiting w @ [Turn cid (simulateSTT r)]\<rparr>"
    by (rule listening_user_turn [OF assms])
  have r1: "cid \<in> activeConnections ?w1" and p1: "phase_of (objects ?w1 cid) = Listening"
    using assms(1,2) by (simp_all add: eq)
  from assms(2) have li: "chat (objects w cid) = Object" by (simp add: listening_iff)
  have sp: "phase_of (objects (step ?w1 (Settle (length (awaiting w)) (Reply t))) cid) = Speaking"
    unfolding eq using li by (simp add: step_def handler_defs Let_def remove_nth_def phase_of_def)
  have later: "phase_of (objects (run ?w1 evs) cid) = Listening
           \<and> sent (step (run ?w1 evs) (Message cid (Parsed d) r')) = sent (run ?w1 evs)
           \<and> awaiting (step (run ?w1 evs) (Message cid (Parsed d) r'))
               = awaiting (run ?w1 evs) @ [Turn cid (simulateSTT r')]"
    if u: "undisturbed_run cid ?w1 evs" for evs
  proof -
    from listening_kept_run [OF r1 p1 u]
    have k: "cid \<in> activeConnections (run ?w1 evs)" "phase_of (objects (run ?w1 evs) cid) = Listening"
      by simp_all
    from listening_user_turn [OF k assms(3), of r'] k(2) show ?thesis by simp
  qed
  from p1 sp later show ?thesis by (simp add: eq)
qed

theorem dispatch_leaves_listening_witness:
  "phase_of (objects sample_listening ''c1'') = Listening
   \<and> phase_of (objects (step sample_listening (Message ''c1'' (wire ''audio_data'') 0)) ''c1'') = Listening
   \<and> phase_of (objects (step (step sample_listening (Message ''c1'' (wire ''audio_data'') 0))
                               (Settle 0 (Reply ''42''))) ''c1'') = Speaking
   \<and> undisturbed_run ''c1'' (step sample_listening (Message ''c1'' (wire ''audio_data'') 0))
        [Message ''c1'' (wire ''status_request'') 0, Message ''c2'' (wire ''audio_data'') 0]
   \<and> sent (step (run (step sample_listening (Message ''c1'' (wire ''audio_data'') 0))
                     [Message ''c1'' (wire ''status_request'') 0, Message ''c2'' (wire ''audio_data'') 0])
                 (Message ''c1'' (wire ''audio_data'') 1)) ''c1''
       = [ConversationStarted, AiResponse ''hello'' None, AiFinishedSpeaking]"
proof -
  let ?w1 = "step sample_listening (Message ''c1'' (wire ''audio_data'') 0)"
  let ?evs = "[Message ''c1'' (wire ''status_request'') 0, Message ''c2'' (wire ''audio_data'') 0]"
  have h1: "''c1'' \<in> activeConnections sample_listening" by (simp add: sample_listening_value)
  have h2: "phase_of (objects sample_listening ''c1'') = Listening"
    by (simp add: sample_listening_value phase_of_def)
  have h3: "mtype \<lparr>mtype = Some ''audio_data'', audio = absent_audio, mimeType = None, input_text = None\<rparr>
              = Some ''audio_data''" by simp
  have h4: "length (awaiting sample_listening) = 0" by (simp add: sample_listening_value)
  have w1: "?w1 = sample_listening\<lparr>awaiting := [Turn ''c1'' ''Tell me about RV400 features'']\<rparr>"
    by (simp add: sample_listening_value step_def wire_def handler_defs Let_def
          simulateSTT_def sampleQueries_def)
  have u: "undisturbed_run ''c1'' ?w1 ?evs"
    unfolding w1 by (simp add: undisturbed_def wire_def)
  have s: "sent (run ?w1 ?evs) ''c1'' = [ConversationStarted, AiResponse ''hello'' None, AiFinishedSpeaking]"
    unfolding w1
    by (simp add: sample_listening_value run_def step_def wire_def handler_defs Let_def)
  from dispatch_leaves_listening [OF h1 h2 h3, of 0 "''42''" 1] h2 h4 u s
  show ?thesis by (simp add: wire_def)
qed

theorem second_user_turn_meets_listening_counterexample:
  "phase_of (objects sample_listening ''c1'') = Listening
   \<and> awaiting (step sample_listening (Message ''c1'' (wire ''audio_data'') 0))
        = [Turn ''c1'' ''Tell me about RV400 features'']
   \<and> phase_of (objects (step sample_listening (Message ''c1'' (wire ''audio_data'') 0)) ''c1'') \<noteq> Speaking
   \<and> sent (step (step sample_listening (Message ''c1'' (wire ''audio_data'') 0))
                 (Message ''c1'' (wire ''audio_data'') 1)) ''c1''
        = sent sample_listening ''c1''
   \<and> awaiting (step (step sample_listening (Message ''c1'' (wire ''audio_data'') 0))
                 (Message ''c1'' (wire ''audio_data'') 1))
        = [Turn ''c1'' ''Tell me about RV400 features'', Turn ''c1'' ''What's the price of RV400 BRZ?'']"
  by (simp add: sample_listening_value step_def wire_def handler_defs Let_def phase_of_def
        simulateSTT_def sampleQueries_def)

subsection \<open>C2: replies of superseded turns\<close>

text \<open>
  Claim C2, as amended. In \<open>server.js\<close> every provider reply to a user turn whose
  text can be read is passed to the socket as an \<open>ai_response\<close> frame, whatever
  arrived while the call was in flight: no reply is discarded as stale.
\<close>

theorem every_reply_is_delivered:
  assumes "k < length (awaiting w)"
    and "awaiting w ! k = Turn cid q"
  shows "sent (step w (Settle k (Reply t))) cid = sent w cid @ [AiResponse t (Some q)]
       \<and> awaiting (step w (Settle k (Reply t))) = remove_nth k (awaiting w)"
  using assms by (simp add: step_def handler_defs Let_def)

theorem every_reply_is_delivered_witness:
  "awaiting (run sample_listening [Message ''c1'' (wire ''audio_data'') 0, Message ''c1'' (wire ''audio_data'') 1])
     = [Turn ''c1'' ''Tell me about RV400 features'', Turn ''c1'' ''What's the price of RV400 BRZ?'']
   \<and> sent (step (run sample_listening [Message ''c1'' (wire ''audio_data'') 0, Message ''c1'' (wire ''audio_data'') 1])
                 (Settle 0 (Reply ''late''))) ''c1''
     = [ConversationStarted, AiResponse ''hello'' None, AiFinishedSpeaking,
        AiResponse ''late'' (Some ''Tell me about RV400 features'')]"
proof -
  let ?w = "run sample_listening [Message ''c1'' (wire ''audio_data'') 0, Message ''c1'' (wire ''audio_data'') 1]"
  have a: "awaiting ?w = [Turn ''c1'' ''Tell me about RV400 features'', Turn ''c1'' ''What's the price of RV400 BRZ?'']"
    by (simp add: sample_listening_value run_def step_def wire_def handler_defs Let_def
        simulateSTT_def sampleQueries_def)
  have s: "sent ?w ''c1'' = [ConversationStarted, AiResponse ''hello'' None, AiFinishedSpeaking]"
    by (simp add: sample_listening_value run_def step_def wire_def handler_defs Let_def)
  have h1: "0 < length (awaiting ?w)" using a by simp
  have h2: "awaiting ?w ! 0 = Turn ''c1'' ''Tell me about RV400 features''" using a by simp
  from every_reply_is_delivered [OF h1 h2, of "''late''"] a s show ?thesis by simp
qed

theorem superseded_reply_is_delivered_counterexample:
  "sent (run sample_listening
          [Message ''c1'' (wire ''audio_data'') 0,
           Message ''c1'' (wire ''audio_data'') 1,
           Settle 0 (Reply ''reply to the first turn''),
           Message ''c1'' (wire ''audio_data'') 2,
           Settle 0 (Reply ''reply to the second turn'')]) ''c1''
     = [ConversationStarted, AiResponse ''hello'' None, AiFinishedSpeaking,
        AiResponse ''reply to the first turn'' (Some ''Tell me about RV400 features''),
        NaturalInterrupt,
        AiResponse ''reply to the second turn'' (Some ''What's the price of RV400 BRZ?'')]"
  by (simp add: sample_listening_value run_def step_def wire_def handler_defs Let_def
        simulateSTT_def sampleQueries_def remove_nth_def)

subsection \<open>C3: interruption of a speaking assistant\<close>

text \<open>
  Claim C3, as amended. In \<open>server.js\<close> a user turn (\<open>audio_data\<close>) of a started
  conversation makes the server pass exactly one \<open>natural_interrupt\<close> frame to the
  socket when the \<open>isSpeaking\<close> flag is set at its arrival, and none when the flag is
  not set, whatever provider calls are in flight. The frame is passed in the step of
  the arrival, where the provider call of the new turn is only suspended (it becomes
  the last entry of \<open>awaiting\<close>): when the reply of the new turn arrives next, its
  \<open>ai_response\<close> follows the frame, and whatever the server sends later on that socket
  comes after it.
\<close>

theorem user_turn_interrupts_when_flag_is_set:
  assumes "cid \<in> activeConnections w"
    and "chat (objects w cid) = Object"
    and "mtype d = Some ''audio_data''"
  shows "sent (step w (Message cid (Parsed d) r)) cid
           = sent w cid @ (if isSpeaking (objects w cid) then [NaturalInterrupt] else [])
       \<and> awaiting (step w (Message cid (Parsed d) r)) = awaiting w @ [Turn cid (simulateSTT r)]
       \<and> phase_of (objects (step w (Message cid (Parsed d) r)) cid) = Listening
       \<and> sent (step (step w (Message cid (Parsed d) r)) (Settle (length (awaiting w)) (Reply t))) cid
           = sent w cid @ (if isSpeaking (objects w cid) then [NaturalInterrupt] else [])
               @ [AiResponse t (Some (simulateSTT r))]
       \<and> (\<forall>evs. \<exists>later. sent (run (step w (Message cid (Parsed d) r)) evs) cid
             = sent w cid @ (if isSpeaking (objects w cid) then [NaturalInterrupt] else []) @ later)"
proof -
  let ?w' = "step w (Message cid (Parsed d) r)"
  let ?i = "if isSpeaking (objects w cid) then [NaturalInterrupt] else []"
  have a: "sent ?w' cid = sent w cid @ ?i"
    using assms by (simp add: step_def handler_defs Let_def)
  have b: "awaiting ?w' = awaiting w @ [Turn cid (simulateSTT r)]"
    using assms by (simp add: step_def handler_defs Let_def)
  have c: "phase_of (objects ?w' cid) = Listening"
    using assms by (simp add: step_def handler_defs Let_def phase_of_def)
  have d: "\<exists>later. sent (run ?w' evs) cid = sent w cid @ ?i @ later" for evs
    using sent_run [of ?w' evs cid] a by simp
  have e: "sent (step ?w' (Settle (length (awaiting w)) (Reply t))) cid
             = sent w cid @ ?i @ [AiResponse t (Some (simulateSTT r))]"
    using a b by (simp add: step_def remove_nth_def on_settle_def handleAudioData_resume_def
                    handleAudioData_rest_def try_catch_def ws_send_def assign_def Let_def)
  from a b c d e show ?thesis by blast
qed

theorem user_turn_interrupts_when_flag_is_set_witness:
  "isSpeaking (objects sample_speaking ''c1'')
   \<and> sent (step sample_speaking (Message ''c1'' (wire ''audio_data'') 0)) ''c1''
       = [ConversationStarted, AiResponse ''hello'' None, NaturalInterrupt]
   \<and> sent (step (step sample_speaking (Message ''c1'' (wire ''audio_data'') 0))
                 (Settle 0 (Reply ''42''))) ''c1''
       = [ConversationStarted, AiResponse ''hello'' None, NaturalInterrupt,
          AiResponse ''42'' (Some ''Tell me about RV400 features'')]
   \<and> awaiting (step sample_speaking (Message ''c1'' (wire ''audio_data'') 0))
       = [Turn ''c1'' ''Tell me about RV400 features'']"
proof -
  have h1: "''c1'' \<in> activeConnections sample_speaking" by (simp add: sample_speaking_value)
  have h2: "chat (objects sample_speaking ''c1'') = Object" by (simp add: sample_speaking_value)
  have h3: "mtype \<lparr>mtype = Some ''audio_data'', audio = absent_audio, mimeType = None, input_text = None\<rparr>
              = Some ''audio_data''" by simp
  have f: "isSpeaking (objects sample_speaking ''c1'')" by (simp add: sample_speaking_value)
  from user_turn_interrupts_when_flag_is_set [OF h1 h2 h3, of 0 "''42''"] f
  show ?thesis by (simp add: wire_def sample_speaking_value simulateSTT_def sampleQueries_def)
qed

theorem user_turn_during_call_in_flight_counterexample:
  "awaiting (step sample_listening (Message ''c1'' (wire ''audio_data'') 0))
     = [Turn ''c1'' ''Tell me about RV400 features'']
   \<and> sent (step (step sample_listening (Message ''c1'' (wire ''audio_data'') 0))
                 (Message ''c1'' (wire ''audio_data'') 1)) ''c1''
     = [ConversationStarted, AiResponse ''hello'' None, AiFinishedSpeaking]
   \<and> sent (run sample_listening
            [Message ''c1'' (wire ''audio_data'') 0,
             Message ''c1'' (wire ''audio_data'') 1,
             Settle 0 (Reply ''reply to A''),
             Settle 0 (Reply ''reply to B'')]) ''c1''
     = [ConversationStarted, AiResponse ''hello'' None, AiFinishedSpeaking,
        AiResponse ''reply to A'' (Some ''Tell me about RV400 features''),
        AiResponse ''reply to B'' (Some ''What's the price of RV400 BRZ?'')]"
  by (simp add: sample_listening_value run_def step_def wire_def handler_defs Let_def
        simulateSTT_def sampleQueries_def remove_nth_def)

subsection \<open>C4: ending twice\<close>

text \<open>
  Claim C4, as amended. In \<open>server.js\<close> and in the VoiceSession server every
  \<open>end_conversation\<close> is answered by exactly one \<open>conversation_ended\<close> frame and by
  no \<open>error\<close> frame, so two in a row yield two \<open>conversation_ended\<close> frames; the
  second leaves the session state unchanged. A user turn that follows an
  \<open>end_conversation\<close> is answered by one \<open>error\<close> frame and changes nothing else.
\<close>

theorem every_end_is_acknowledged:
  assumes "mtype d = Some ''end_conversation''"
    and "mtype a = Some ''audio_data''"
  shows "sent (step w (Message cid (Parsed d) r)) cid = sent w cid @ [ConversationEnded]
       \<and> sent (step (step w (Message cid (Parsed d) r)) (Message cid (Parsed d) r')) cid
            = sent w cid @ [ConversationEnded, ConversationEnded]
       \<and> objects (step (step w (Message cid (Parsed d) r)) (Message cid (Parsed d) r'))
            = objects (step w (Message cid (Parsed d) r))
       \<and> step (step w (Message cid (Parsed d) r)) (Message cid (Parsed a) r')
            = ws_send cid (ErrorFrame ''No active conversation'') (step w (Message cid (Parsed d) r))
       \<and> vs_sent (vs_step s (VsMessage (Parsed d))) = vs_sent s @ [ConversationEnded]
       \<and> vs_sent (vs_step (vs_step s (VsMessage (Parsed d))) (VsMessage (Parsed d)))
            = vs_sent s @ [ConversationEnded, ConversationEnded]
       \<and> session (vs_step (vs_step s (VsMessage (Parsed d))) (VsMessage (Parsed d)))
            = session (vs_step s (VsMessage (Parsed d)))
       \<and> vs_step (vs_step s (VsMessage (Parsed d))) (VsMessage (Parsed a))
            = vs_send (ErrorFrame ''Failed to process audio: Conversation not active'')
                (vs_step s (VsMessage (Parsed d)))"
proof -
  have e: "step w (Message cid (Parsed d) r)
             = ws_send cid ConversationEnded
                 (if cid \<in> activeConnections w
                  then assign cid (\<lambda>c. c\<lparr>isListening := False, chat := Null, model := Null\<rparr>) w
                  else w)" for w r
    using assms(1) by (simp add: step_def handler_defs Let_def)
  have s1: "sent (step w (Message cid (Parsed d) r)) cid = sent w cid @ [ConversationEnded]" for w r
    by (simp add: e ws_send_def assign_def)
  have s2: "objects (step (step w (Message cid (Parsed d) r)) (Message cid (Parsed d) r'))
            = objects (step w (Message cid (Parsed d) r))"
    by (simp add: e ws_send_def assign_def)
  have s3: "step (step w (Message cid (Parsed d) r)) (Message cid (Parsed a) r')
            = ws_send cid (ErrorFrame ''No active conversation'') (step w (Message cid (Parsed d) r))"
    using assms(2) by (simp add: e) (simp add: step_def handler_defs Let_def)
  have v: "vs_step s (VsMessage (Parsed d)) = vs_send ConversationEnded (endConversation s)" for s
    using assms(1) by (simp add: vs_defs)
  have v1: "vs_sent (vs_step s (VsMessage (Parsed d))) = vs_sent s @ [ConversationEnded]" for s
    by (simp add: v vs_send_def endConversation_def)
  have v2: "session (vs_step (vs_step s (VsMessage (Parsed d))) (VsMessage (Parsed d)))
            = session (vs_step s (VsMessage (Parsed d)))"
    by (simp add: v vs_send_def endConversation_def)
  have v3: "vs_step (vs_step s (VsMessage (Parsed d))) (VsMessage (Parsed a))
            = vs_send (ErrorFrame ''Failed to process audio: Conversation not active'')
                (vs_step s (VsMessage (Parsed d)))"
    using assms(2) by (simp add: v) (simp add: vs_defs)
  show ?thesis using s1 s2 s3 v1 v2 v3 by simp
qed

theorem every_end_is_acknowledged_witness:
  "sent (step sample_listening (Message ''c1'' (wire ''end_conversation'') 0)) ''c1''
     = [ConversationStarted, AiResponse ''hello'' None, AiFinishedSpeaking, ConversationEnded]
   \<and> vs_sent (vs_step (vs_step vs_connected (VsMessage (wire ''end_conversation'')))
                       (VsMessage (wire ''end_conversation'')))
     = [ConversationEnded, ConversationEnded]"
proof -
  have h1: "mtype \<lparr>mtype = Some ''end_conversation'', audio = absent_audio, mimeType = None, input_text = None\<rparr>
              = Some ''end_conversation''" by simp
  have h2: "mtype \<lparr>mtype = Some ''audio_data'', audio = absent_audio, mimeType = None, input_text = None\<rparr>
              = Some ''audio_data''" by simp
  from every_end_is_acknowledged [OF h1 h2, of sample_listening "''c1''" 0 0 vs_connected]
  show ?thesis by (simp add: wire_def sample_listening_value vs_connected_def)
qed

theorem second_end_is_acknowledged_again_counterexample:
  "sent (run sample_listening
          [Message ''c1'' (wire ''end_conversation'') 0, Message ''c1'' (wire ''end_conversation'') 0]) ''c1''
     = [ConversationStarted, AiResponse ''hello'' None, AiFinishedSpeaking,
        ConversationEnded, ConversationEnded]
   \<and> filter is_error (sent (run sample_listening
          [Message ''c1'' (wire ''end_conversation'') 0, Message ''c1'' (wire ''end_conversation'') 0]) ''c1'')
     = []"
  by (simp add: sample_listening_value run_def step_def wire_def handler_defs Let_def)

subsection \<open>C5: the connection registry\<close>

lemma activeConnections_step:
  "(cid \<in> activeConnections (step w ev)) = registered_after cid (cid \<in> activeConnections w) [ev]"
  by (cases ev)
     (auto simp: step_def activeConnections_on_message activeConnections_on_settle activeConnections_on_timer)

lemma registered_after_Cons:
  "registered_after cid b (ev # evs) = registered_after cid (registered_after cid b [ev]) evs"
  by (cases ev) simp_all

text \<open>
  Claim C5, as amended. The Map \<open>activeConnections\<close> has an entry for a connection
  exactly when the connection was accepted and neither \<open>close\<close> nor \<open>error\<close> has
  fired on it since: the entry is created on connect and removed on transport close
  or error, and an \<open>end_conversation\<close> message does not remove it.
\<close>

theorem registry_entry_follows_transport_events:
  "(cid \<in> activeConnections (run w evs)) = registered_after cid (cid \<in> activeConnections w) evs"
proof (induction evs arbitrary: w)
  case Nil
  show ?case by (simp add: run_def)
next
  case (Cons ev evs)
  have "run w (ev # evs) = run (step w ev) evs" by (simp add: run_def)
  then show ?case
    using Cons.IH [of "step w ev"] activeConnections_step [of cid w ev]
      registered_after_Cons [of cid "cid \<in> activeConnections w" ev evs]
    by simp
qed

theorem registry_entry_follows_transport_events_witness:
  "''c1'' \<in> activeConnections
      (run initial_world [Connection ''c1'', Message ''c1'' (wire ''end_conversation'') 0])
   \<and> ''c1'' \<notin> activeConnections
      (run initial_world [Connection ''c1'', Message ''c1'' (wire ''end_conversation'') 0, Close ''c1''])"
  using registry_entry_follows_transport_events [of "''c1''" initial_world
          "[Connection ''c1'', Message ''c1'' (wire ''end_conversation'') 0]"]
        registry_entry_follows_transport_events [of "''c1''" initial_world
          "[Connection ''c1'', Message ''c1'' (wire ''end_conversation'') 0, Close ''c1'']"]
  by (simp add: initial_world_def)

theorem entry_survives_end_counterexample:
  "''c1'' \<in> activeConnections
      (run initial_world [Connection ''c1'', Message ''c1'' (wire ''start_conversation'') 0,
                          Message ''c1'' (wire ''end_conversation'') 0])
   \<and> phase_of (objects (run initial_world [Connection ''c1'', Message ''c1'' (wire ''start_conversation'') 0,
                          Message ''c1'' (wire ''end_conversation'') 0]) ''c1'') = Ended"
  by (simp add: sample_defs handler_defs Let_def)

subsection \<open>C6: a user turn before any start\<close>

text \<open>
  Claim C6, as amended. A user turn received while the session is \<open>Idle\<close> makes no
  provider call and leaves the session state unchanged in all three servers.
  \<open>server.js\<close> and the VoiceSession server answer it with exactly one \<open>error\<close>
  frame; the live-session server drops it behind its guard and sends nothing.
\<close>

theorem user_turn_while_idle:
  "(cid \<in> activeConnections w \<and> phase_of (objects w cid) = Idle \<and> mtype d = Some ''audio_data''
     \<longrightarrow> sent (step w (Message cid (Parsed d) r))
           = (sent w)(cid := sent w cid @ [ErrorFrame ''No active conversation''])
       \<and> objects (step w (Message cid (Parsed d) r)) = objects w
       \<and> activeConnections (step w (Message cid (Parsed d) r)) = activeConnections w
       \<and> awaiting (step w (Message cid (Parsed d) r)) = awaiting w
       \<and> timers (step w (Message cid (Parsed d) r)) = timers w)
   \<and> (vs_chat (session s) = Null \<and> mtype d = Some ''audio_data''
     \<longrightarrow> vs_sent (vs_step s (VsMessage (Parsed d)))
           = vs_sent s @ [ErrorFrame ''Failed to process audio: Conversation not active'']
       \<and> session (vs_step s (VsMessage (Parsed d))) = session s
       \<and> vs_awaiting (vs_step s (VsMessage (Parsed d))) = vs_awaiting s
       \<and> in_sessions (vs_step s (VsMessage (Parsed d))) = in_sessions s)
   \<and> (liveSession l = Null \<and> (mtype d = Some ''audio_data'' \<or> mtype d = Some ''text_input'')
     \<longrightarrow> live_step l (LiveMessage (Parsed d)) = l)"
  by (auto simp: step_def handler_defs vs_defs live_defs phase_of_def split: ref.splits if_splits)

theorem user_turn_while_idle_witness:
  "phase_of (objects (step initial_world (Connection ''c1'')) ''c1'') = Idle
   \<and> sent (step (step initial_world (Connection ''c1'')) (Message ''c1'' (wire ''audio_data'') 0)) ''c1''
       = [ErrorFrame ''No active conversation'']
   \<and> awaiting (step (step initial_world (Connection ''c1'')) (Message ''c1'' (wire ''audio_data'') 0)) = []
   \<and> vs_sent (vs_step vs_connected (VsMessage (wire ''audio_data'')))
       = [ErrorFrame ''Failed to process audio: Conversation not active'']
   \<and> live_step live_connected (LiveMessage (wire ''audio_data'')) = live_connected"
proof -
  let ?w = "step initial_world (Connection ''c1'')"
  let ?d = "\<lparr>mtype = Some ''audio_data'', audio = absent_audio, mimeType = None, input_text = None\<rparr>"
  have h1: "''c1'' \<in> activeConnections ?w" by (simp add: step_def initial_world_def)
  have h2: "phase_of (objects ?w ''c1'') = Idle" by (simp add: step_def initial_world_def phase_of_def)
  have h3: "sent ?w ''c1'' = []" "awaiting ?w = []" by (simp_all add: step_def initial_world_def)
  have h4: "vs_chat (session vs_connected) = Null" "vs_sent vs_connected = []"
    by (simp_all add: vs_connected_def)
  have h5: "liveSession live_connected = Null" by (simp add: live_connected_def)
  from user_turn_while_idle [of "''c1''" ?w ?d 0 vs_connected live_connected] h1 h2 h3 h4 h5
  show ?thesis by (simp add: wire_def)
qed

theorem idle_user_turn_is_dropped_silently_counterexample:
  "live_step live_connected (LiveMessage (wire ''audio_data'')) = live_connected
   \<and> live_sent (live_step live_connected (LiveMessage (wire ''audio_data''))) = []
   \<and> live_sent (live_step live_connected (LiveMessage (wire ''text_input''))) = []"
  by (simp add: live_connected_def wire_def live_defs)

subsection \<open>C7: malformed frames and unknown tags\<close>

text \<open>
  Claim C7, as amended. In \<open>server.js\<close> an inbound frame that is not JSON, or that
  parses to \<open>null\<close>, is answered by exactly one \<open>error\<close> frame; a frame whose tag is
  none of the four the \<open>switch\<close> names is only logged and nothing is sent. In both
  cases the connection object, the Map and the suspended calls are unchanged.
\<close>

theorem malformed_frame_reports_error_unknown_tag_is_dropped:
  "step w (Message cid (Unparseable m) r) = ws_send cid (ErrorFrame ''Failed to process message'') w
   \<and> step w (Message cid ParsedNull r) = ws_send cid (ErrorFrame ''Failed to process message'') w
   \<and> objects (ws_send cid (ErrorFrame ''Failed to process message'') w) = objects w
   \<and> activeConnections (ws_send cid (ErrorFrame ''Failed to process message'') w) = activeConnections w
   \<and> awaiting (ws_send cid (ErrorFrame ''Failed to process message'') w) = awaiting w
   \<and> sent (ws_send cid (ErrorFrame ''Failed to process message'') w) cid
        = sent w cid @ [ErrorFrame ''Failed to process message'']
   \<and> (mtype d \<noteq> Some ''start_conversation'' \<and> mtype d \<noteq> Some ''audio_data''
        \<and> mtype d \<noteq> Some ''natural_interrupt'' \<and> mtype d \<noteq> Some ''end_conversation''
       \<longrightarrow> step w (Message cid (Parsed d) r) = w)"
  by (simp add: step_def handler_defs)

theorem malformed_frame_reports_error_unknown_tag_is_dropped_witness:
  "sent (step sample_listening (Message ''c1'' (Unparseable ''Unexpected end of JSON input'') 0)) ''c1''
     = [ConversationStarted, AiResponse ''hello'' None, AiFinishedSpeaking,
        ErrorFrame ''Failed to process message'']
   \<and> objects (step sample_listening (Message ''c1'' (Unparseable ''Unexpected end of JSON input'') 0))
     = objects sample_listening
   \<and> step sample_listening (Message ''c1'' (wire ''status_request'') 0) = sample_listening"
  using malformed_frame_reports_error_unknown_tag_is_dropped
          [of sample_listening "''c1''" "''Unexpected end of JSON input''" 0
              "\<lparr>mtype = Some ''status_request'', audio = absent_audio, mimeType = None, input_text = None\<rparr>"]
  by (simp add: wire_def sample_listening_value)

theorem unknown_tag_sends_nothing_counterexample:
  "step sample_listening (Message ''c1'' (wire ''status_request'') 0) = sample_listening
   \<and> filter is_error (sent (step sample_listening (Message ''c1'' (wire ''status_request'') 0)) ''c1'') = []"
  by (simp add: sample_listening_value step_def wire_def handler_defs)

subsection \<open>C8: the explicit interrupt\<close>

text \<open>
  Claim C8, evaluated on the code. In \<open>server.js\<close> the \<open>natural_interrupt\<close> case calls
  \<open>handleNaturalInterrupt\<close>, which that file does not declare: for a \<open>Speaking\<close>
  session the message is answered by the \<open>error\<close> frame of the handler's \<open>catch\<close>, and
  the session stays \<open>Speaking\<close>. The function the file does declare,
  \<open>handleInterrupt\<close>, would have sent \<open>interrupted\<close>; the VoiceSession server, which
  declares \<open>handleNaturalInterrupt\<close>, sends its acknowledgement.
\<close>

theorem natural_interrupt_case_throws:
  "on_message_try ''c1'' (wire ''natural_interrupt'') 0 sample_speaking
     = (Some (ReferenceError ''handleNaturalInterrupt is not defined''), sample_speaking)
   \<and> phase_of (objects sample_speaking ''c1'') = Speaking
   \<and> sent (step sample_speaking (Message ''c1'' (wire ''natural_interrupt'') 0)) ''c1''
     = [ConversationStarted, AiResponse ''hello'' None, ErrorFrame ''Failed to process message'']
   \<and> phase_of (objects (step sample_speaking (Message ''c1'' (wire ''natural_interrupt'') 0)) ''c1'') = Speaking
   \<and> sent (snd (handleInterrupt ''c1'' sample_speaking)) ''c1''
     = [ConversationStarted, AiResponse ''hello'' None, Interrupted]
   \<and> vs_sent (vs_step (vs_step vs_connected (VsMessage (wire ''start_conversation'')))
                       (VsMessage (wire ''natural_interrupt'')))
     = [ConversationStarted, NaturalInterruptConfirmed]"
  by (simp add: sample_speaking_value step_def wire_def handler_defs handleInterrupt_def phase_of_def
        vs_connected_def vs_defs Let_def)

subsection \<open>C9: a provider call that fails\<close>

text \<open>
  Claim C9, as amended. In \<open>server.js\<close>, when the provider call of a user turn is
  rejected, exactly one \<open>error\<close> frame is passed to the socket, no field of a
  connection object changes, the Map is unchanged, the call leaves the suspended
  calls and none is added (the turn is not dispatched again). The session is thus in
  the state it was in just before the failure. It is \<open>Listening\<close> afterwards when the
  world before the failure was reached from the dispatch of a user turn of a
  \<open>Listening\<close> session by an undisturbed run of events: one in which no provider
  call of a user turn of the session resolved and no \<open>start_conversation\<close>,
  \<open>end_conversation\<close>, \<open>connection\<close>, \<open>close\<close> or \<open>error\<close> of the connection was handled.
\<close>

theorem rejected_call_keeps_state:
  assumes "k < length (awaiting w)"
    and "awaiting w ! k = Turn cid q"
  shows "sent (step w (Settle k (Rejected m))) = (sent w)(cid := sent w cid @ [ErrorFrame ''Failed to process audio''])
       \<and> objects (step w (Settle k (Rejected m))) = objects w
       \<and> phase_of (objects (step w (Settle k (Rejected m))) cid) = phase_of (objects w cid)
       \<and> activeConnections (step w (Settle k (Rejected m))) = activeConnections w
       \<and> awaiting (step w (Settle k (Rejected m))) = remove_nth k (awaiting w)
       \<and> timers (step w (Settle k (Rejected m))) = timers w
       \<and> (\<forall>w0 d r evs.
             cid \<in> activeConnections w0 \<and> phase_of (objects w0 cid) = Listening
             \<and> mtype d = Some ''audio_data''
             \<and> undisturbed_run cid (step w0 (Message cid (Parsed d) r)) evs
             \<and> w = run (step w0 (Message cid (Parsed d) r)) evs
           \<longrightarrow> phase_of (objects (step w (Settle k (Rejected m))) cid) = Listening)"
proof -
  have st: "objects (step w (Settle k (Rejected m))) = objects w"
    using assms by (simp add: step_def handler_defs Let_def)
  have tr: "phase_of (objects (step w (Settle k (Rejected m))) cid) = Listening"
    if h: "cid \<in> activeConnections w0" "phase_of (objects w0 cid) = Listening"
          "mtype d = Some ''audio_data''"
          "undisturbed_run cid (step w0 (Message cid (Parsed d) r)) evs"
          "w = run (step w0 (Message cid (Parsed d) r)) evs" for w0 d r evs
  proof -
    have eq: "step w0 (Message cid (Parsed d) r) = w0\<lparr>awaiting := awaiting w0 @ [Turn cid (simulateSTT r)]\<rparr>"
      by (rule listening_user_turn [OF h(1,2,3)])
    have r1: "cid \<in> activeConnections (step w0 (Message cid (Parsed d) r))"
      and p1: "phase_of (objects (step w0 (Message cid (Parsed d) r)) cid) = Listening"
      using h(1,2) by (simp_all add: eq)
    from listening_kept_run [OF r1 p1 h(4)] h(5)
    have "phase_of (objects w cid) = Listening" by simp
    with st show ?thesis by simp
  qed
  have rest: "sent (step w (Settle k (Rejected m))) = (sent w)(cid := sent w cid @ [ErrorFrame ''Failed to process audio''])
       \<and> activeConnections (step w (Settle k (Rejected m))) = activeConnections w
       \<and> awaiting (step w (Settle k (Rejected m))) = remove_nth k (awaiting w)
       \<and> timers (step w (Settle k (Rejected m))) = timers w"
    using assms by (simp add: step_def handler_defs Let_def)
  from st rest tr show ?thesis by simp
qed

theorem rejected_call_keeps_state_witness:
  "phase_of (objects sample_listening ''c1'') = Listening
   \<and> undisturbed_run ''c1'' (step sample_listening (Message ''c1'' (wire ''audio_data'') 0))
        [Message ''c1'' (wire ''audio_data'') 1]
   \<and> awaiting (run (step sample_listening (Message ''c1'' (wire ''audio_data'') 0))
                   [Message ''c1'' (wire ''audio_data'') 1])
       = [Turn ''c1'' ''Tell me about RV400 features'', Turn ''c1'' ''What's the price of RV400 BRZ?'']
   \<and> phase_of (objects (step (run (step sample_listening (Message ''c1'' (wire ''audio_data'') 0))
                                    [Message ''c1'' (wire ''audio_data'') 1])
                               (Settle 0 (Rejected ''timeout''))) ''c1'') = Listening
   \<and> sent (step (run (step sample_listening (Message ''c1'' (wire ''audio_data'') 0))
                     [Message ''c1'' (wire ''audio_data'') 1])
                 (Settle 0 (Rejected ''timeout''))) ''c1''
       = [ConversationStarted, AiResponse ''hello'' None, AiFinishedSpeaking,
          ErrorFrame ''Failed to process audio'']
   \<and> awaiting (step (run (step sample_listening (Message ''c1'' (wire ''audio_data'') 0))
                         [Message ''c1'' (wire ''audio_data'') 1])
                     (Settle 0 (Rejected ''timeout'')))
       = [Turn ''c1'' ''What's the price of RV400 BRZ?'']"
proof -
  let ?d = "\<lparr>mtype = Some ''audio_data'', audio = absent_audio, mimeType = None, input_text = None\<rparr>"
  let ?w1 = "step sample_listening (Message ''c1'' (Parsed ?d) 0)"
  let ?evs = "[Message ''c1'' (Parsed ?d) 1]"
  let ?w = "run ?w1 ?evs"
  have h1: "''c1'' \<in> activeConnections sample_listening" by (simp add: sample_listening_value)
  have h2: "phase_of (objects sample_listening ''c1'') = Listening"
    by (simp add: sample_listening_value phase_of_def)
  have h3: "mtype ?d = Some ''audio_data''" by simp
  have w1: "?w1 = sample_listening\<lparr>awaiting := [Turn ''c1'' ''Tell me about RV400 features'']\<rparr>"
    by (simp add: sample_listening_value step_def handler_defs Let_def
          simulateSTT_def sampleQueries_def)
  have u: "undisturbed_run ''c1'' ?w1 ?evs"
    unfolding w1 by (simp add: undisturbed_def)
  have w: "?w = sample_listening\<lparr>awaiting := [Turn ''c1'' ''Tell me about RV400 features'',
                                                  Turn ''c1'' ''What's the price of RV400 BRZ?'']\<rparr>"
    unfolding w1
    by (simp add: sample_listening_value run_def step_def handler_defs Let_def
          simulateSTT_def sampleQueries_def)
  have k1: "0 < length (awaiting ?w)" unfolding w by simp
  have k2: "awaiting ?w ! 0 = Turn ''c1'' ''Tell me about RV400 features''" unfolding w by simp
  have a: "awaiting ?w = [Turn ''c1'' ''Tell me about RV400 features'',
                          Turn ''c1'' ''What's the price of RV400 BRZ?'']" unfolding w by simp
  have s: "sent ?w ''c1'' = [ConversationStarted, AiResponse ''hello'' None, AiFinishedSpeaking]"
    unfolding w by (simp add: sample_listening_value)
  from rejected_call_keeps_state [OF k1 k2, of "''timeout''"]
  have all: "sent (step ?w (Settle 0 (Rejected ''timeout'')))
              = (sent ?w)(''c1'' := sent ?w ''c1'' @ [ErrorFrame ''Failed to process audio''])"
    "awaiting (step ?w (Settle 0 (Rejected ''timeout''))) = remove_nth 0 (awaiting ?w)"
    "\<forall>w0 d r evs.
             ''c1'' \<in> activeConnections w0 \<and> phase_of (objects w0 ''c1'') = Listening
             \<and> mtype d = Some ''audio_data''
             \<and> undisturbed_run ''c1'' (step w0 (Message ''c1'' (Parsed d) r)) evs
             \<and> ?w = run (step w0 (Message ''c1'' (Parsed d) r)) evs
           \<longrightarrow> phase_of (objects (step ?w (Settle 0 (Rejected ''timeout''))) ''c1'') = Listening"
    by blast+
  from all(3) h1 h2 h3 u
  have p: "phase_of (objects (step ?w (Settle 0 (Rejected ''timeout''))) ''c1'') = Listening"
    by blast
  from h2 u a p all(1) all(2) s show ?thesis by (simp add: wire_def remove_nth_def)
qed

theorem failure_after_other_reply_leaves_speaking_counterexample:
  "phase_of (objects sample_listening ''c1'') = Listening
   \<and> phase_of (objects (run sample_listening
          [Message ''c1'' (wire ''audio_data'') 0,
           Message ''c1'' (wire ''audio_data'') 1,
           Settle 0 (Reply ''reply to the first turn''),
           Settle 0 (Rejected ''429 Too Many Requests'')]) ''c1'') = Speaking
   \<and> sent (run sample_listening
          [Message ''c1'' (wire ''audio_data'') 0,
           Message ''c1'' (wire ''audio_data'') 1,
           Settle 0 (Reply ''reply to the first turn''),
           Settle 0 (Rejected ''429 Too Many Requests'')]) ''c1''
     = [ConversationStarted, AiResponse ''hello'' None, AiFinishedSpeaking,
        AiResponse ''reply to the first turn'' (Some ''Tell me about RV400 features''),
        ErrorFrame ''Failed to process audio'']"
  by (simp add: sample_listening_value run_def step_def wire_def handler_defs Let_def
        simulateSTT_def sampleQueries_def remove_nth_def phase_of_def)

subsection \<open>C10: exceptions at the message handler\<close>

text \<open>
  Claim C10. In each of the three servers the message handler completes normally
  for every inbound frame, both in the step of the message and when its suspended
  provider call settles: no exception escapes it. At most one \<open>error\<close> frame is
  passed to the socket per message: a step that suspends a provider call sends
  none, and the step that settles a call sends at most one and suspends nothing. An
  exception that reaches the outer \<open>catch\<close> of the handler is answered there by that
  server's \<open>error\<close> frame.
\<close>

theorem message_handlers_never_rethrow:
  "fst (on_message cid raw r w) = None
   \<and> fst (on_settle t out w) = None
   \<and> length (filter is_error (emitted (sent w c) (sent (snd (on_message cid raw r w)) c))) \<le> 1
   \<and> (awaiting (snd (on_message cid raw r w)) \<noteq> awaiting w
        \<longrightarrow> filter is_error (emitted (sent w c) (sent (snd (on_message cid raw r w)) c)) = [])
   \<and> length (filter is_error (emitted (sent w c) (sent (snd (on_settle t out w)) c))) \<le> 1
   \<and> awaiting (snd (on_settle t out w)) = awaiting w
   \<and> (fst (on_message_try cid raw r w) = Some e
        \<longrightarrow> on_message cid raw r w
            = (None, ws_send cid (ErrorFrame ''Failed to process message'')
                       (snd (on_message_try cid raw r w))))
   \<and> fst (vs_on_message raw s) = None
   \<and> fst (vs_on_settle out s) = None
   \<and> length (filter is_error (emitted (vs_sent s) (vs_sent (snd (vs_on_message raw s))))) \<le> 1
   \<and> (vs_awaiting (snd (vs_on_message raw s)) \<noteq> vs_awaiting s
        \<longrightarrow> filter is_error (emitted (vs_sent s) (vs_sent (snd (vs_on_message raw s)))) = [])
   \<and> length (filter is_error (emitted (vs_sent s) (vs_sent (snd (vs_on_settle out s))))) \<le> 1
   \<and> vs_awaiting (snd (vs_on_settle out s)) = vs_awaiting s
   \<and> (fst (vs_on_message_try raw s) = Some e
        \<longrightarrow> vs_on_message raw s
            = (None, vs_send (ErrorFrame (''Server error: '' @ message_of e))
                       (snd (vs_on_message_try raw s))))
   \<and> fst (live_on_message raw l) = None
   \<and> fst (live_on_settle out l) = None
   \<and> length (filter is_error (emitted (live_sent l) (live_sent (snd (live_on_message raw l))))) \<le> 1
   \<and> (live_awaiting (snd (live_on_message raw l)) \<noteq> live_awaiting l
        \<longrightarrow> filter is_error (emitted (live_sent l) (live_sent (snd (live_on_message raw l)))) = [])
   \<and> length (filter is_error (emitted (live_sent l) (live_sent (snd (live_on_settle out l))))) \<le> 1
   \<and> live_awaiting (snd (live_on_settle out l)) = live_awaiting l
   \<and> (fst (live_on_message_try raw l) = Some e
        \<longrightarrow> live_on_message raw l
            = (None, live_send (ErrorFrame (message_of e)) (snd (live_on_message_try raw l))))"
  using on_message_completes [of cid raw r w] on_settle_completes [of t out w]
    on_message_errors [of w c cid raw r] on_message_suspended_no_error [of cid raw r w c]
    on_settle_errors [of w c t out] on_settle_awaiting [of t out w]
    boundary_catch [of cid raw r w e]
    vs_on_message_completes [of raw s] vs_on_settle_completes [of out s]
    vs_on_message_errors [of s raw] vs_on_message_suspended_no_error [of raw s]
    vs_on_settle_errors [of s out]
    live_on_message_completes [of raw l] live_on_settle_completes [of out l]
    live_on_message_errors [of l raw] live_on_message_suspended_no_error [of raw l]
    live_on_settle_errors [of l out]
    vs_boundary_catch [of raw s e] live_boundary_catch [of raw l e]
  by blast

theorem message_handlers_never_rethrow_witness:
  "on_message_try ''c1'' (Unparseable ''Unexpected token'') 0 sample_listening
     = (Some (SyntaxError ''Unexpected token''), sample_listening)
   \<and> on_message ''c1'' (Unparseable ''Unexpected token'') 0 sample_listening
     = (None, ws_send ''c1'' (ErrorFrame ''Failed to process message'') sample_listening)
   \<and> awaiting (snd (on_message ''c1'' (wire ''audio_data'') 0 sample_listening)) \<noteq> awaiting sample_listening
   \<and> filter is_error (emitted (sent sample_listening ''c1'')
        (sent (snd (on_message ''c1'' (wire ''audio_data'') 0 sample_listening)) ''c1'')) = []"
proof -
  have t: "on_message_try ''c1'' (Unparseable ''Unexpected token'') 0 sample_listening
             = (Some (SyntaxError ''Unexpected token''), sample_listening)"
    by (simp add: on_message_try_def)
  then have h: "fst (on_message_try ''c1'' (Unparseable ''Unexpected token'') 0 sample_listening)
             = Some (SyntaxError ''Unexpected token'')" by simp
  have a: "awaiting (snd (on_message ''c1'' (wire ''audio_data'') 0 sample_listening))
             \<noteq> awaiting sample_listening"
    by (simp add: sample_listening_value wire_def handler_defs Let_def)
  from message_handlers_never_rethrow
         [of "''c1''" "Unparseable ''Unexpected token''" 0 sample_listening _ _ _
             "SyntaxError ''Unexpected token''"] h t
  have b: "on_message ''c1'' (Unparseable ''Unexpected token'') 0 sample_listening
     = (None, ws_send ''c1'' (ErrorFrame ''Failed to process message'') sample_listening)"
    by simp
  from message_handlers_never_rethrow
         [of "''c1''" "wire ''audio_data''" 0 sample_listening _ _ "''c1''"] a
  have c: "filter is_error (emitted (sent sample_listening ''c1'')
        (sent (snd (on_message ''c1'' (wire ''audio_data'') 0 sample_listening)) ''c1'')) = []"
    by blast
  from t a b c show ?thesis by simp
qed

end
